theory Spec2Isabelle
  imports Complex_Main
begin

section \<open>JavaScript numbers\<close>

text \<open>
  A JavaScript number is an IEEE 754 double: a finite double, here the real number it
  denotes, one of the two infinities, or NaN. The two zeros are one value and so are all
  NaNs; nothing below tells them apart. A \<open>Float32Array\<close> element is a number as well,
  since every single-precision value is a double.
\<close>

datatype number = Finite real | PlusInfinity | MinusInfinity | NaN

text \<open>Powers of two with an integer exponent.\<close>

definition pow2 :: "int \<Rightarrow> real" where
  "pow2 k = (if 0 \<le> k then 2 ^ nat k else 1 / 2 ^ nat (- k))"

text \<open>Rounding to the nearest integer, a tie to the even one.\<close>

definition roundTiesToEven :: "real \<Rightarrow> int" where
  "roundTiesToEven r =
     (let f = \<lfloor>r\<rfloor>; d = r - of_int f
      in if d < 1 / 2 then f else if 1 / 2 < d then f + 1 else if even f then f else f + 1)"

text \<open>
  The double that an exact result is rounded to (round to nearest, ties to even). With
  \<open>e\<close> the binary exponent of the result, the doubles around it are the multiples of
  \<open>pow2 (e - 52)\<close>, and of \<open>pow2 (- 1074)\<close> in the subnormal range; a result that rounds
  to \<open>pow2 1024\<close> or more overflows to an infinity.
\<close>

definition roundDouble :: "real \<Rightarrow> number" where
  "roundDouble x =
     (if x = 0 then Finite 0
      else
        (let a = \<bar>x\<bar>;
             e = \<lfloor>log 2 a\<rfloor>;
             q = max e (- 1022) - 52;
             y = of_int (roundTiesToEven (a / pow2 q)) * pow2 q
         in if pow2 1024 \<le> y then (if 0 < x then PlusInfinity else MinusInfinity)
            else Finite (if 0 < x then y else - y)))"

text \<open>\<open>Math.abs\<close>.\<close>

fun Math_abs :: "number \<Rightarrow> number" where
  "Math_abs (Finite x) = Finite \<bar>x\<bar>"
| "Math_abs PlusInfinity = PlusInfinity"
| "Math_abs MinusInfinity = PlusInfinity"
| "Math_abs NaN = NaN"

text \<open>The operator \<open>+\<close> on numbers.\<close>

fun js_add :: "number \<Rightarrow> number \<Rightarrow> number" where
  "js_add NaN y = NaN"
| "js_add x NaN = NaN"
| "js_add PlusInfinity MinusInfinity = NaN"
| "js_add MinusInfinity PlusInfinity = NaN"
| "js_add PlusInfinity y = PlusInfinity"
| "js_add x PlusInfinity = PlusInfinity"
| "js_add MinusInfinity y = MinusInfinity"
| "js_add x MinusInfinity = MinusInfinity"
| "js_add (Finite x) (Finite y) = roundDouble (x + y)"

text \<open>
  The operator \<open>/\<close> with the length of an array as divisor: a non-negative integer, which
  is a double as it is (array lengths are below \<open>pow2 53\<close>), and the positive zero when
  it is 0.
\<close>

fun js_div :: "number \<Rightarrow> nat \<Rightarrow> number" where
  "js_div NaN n = NaN"
| "js_div PlusInfinity n = PlusInfinity"
| "js_div MinusInfinity n = MinusInfinity"
| "js_div (Finite x) n =
     (if n = 0 then (if x = 0 then NaN else if 0 < x then PlusInfinity else MinusInfinity)
      else roundDouble (x / real n))"

text \<open>The operator \<open>>\<close> on numbers: false as soon as one side is NaN.\<close>

fun js_gt :: "number \<Rightarrow> number \<Rightarrow> bool" where
  "js_gt (Finite x) (Finite y) \<longleftrightarrow> y < x"
| "js_gt (Finite x) MinusInfinity \<longleftrightarrow> True"
| "js_gt PlusInfinity (Finite y) \<longleftrightarrow> True"
| "js_gt PlusInfinity MinusInfinity \<longleftrightarrow> True"
| "js_gt x y \<longleftrightarrow> False"

section \<open>The audio worklet: \<open>CaptionProcessor\<close>\<close>

text \<open>
  The worklet processor of the repository keeps a 4096-sample window, a write index and
  the three fields of the activity detector. Everything it sends to the main thread goes
  through \<open>this.port.postMessage\<close>; the port is modelled as the list of the messages
  posted so far, oldest first.

  Samples are the elements of a \<open>Float32Array\<close>, and the level of a block is computed
  from them in double arithmetic, every addition and the division rounded. The counter
  \<open>silenceFrames\<close> is a JavaScript number that is only ever set to 0 or incremented, hence
  a natural number. The \<open>timestamp\<close> field of an audio message (the global
  \<open>currentTime\<close>) and the pass-through copy into \<open>outputs\<close> do not touch the processor
  and are left out.
\<close>

datatype message =
    Initialized
  | SpeechStart number
  | SpeechEnd number
  | ProcessAudio "number list"

record CaptionProcessor =
  bufferSize :: nat
  buffer :: "number list"
  bufferIndex :: nat
  silenceThreshold :: number
  silenceFrames :: nat
  maxSilenceFrames :: nat
  isActive :: bool
  port :: "message list"

text \<open>
  The constructor, with the message that \<open>init()\<close> posts. The literal \<open>0.01\<close> is the
  double nearest to one hundredth, which is \<open>5764607523034235 / 2 ^ 59\<close>, a little
  above it.
\<close>

definition CaptionProcessor_new :: CaptionProcessor where
  "CaptionProcessor_new =
     \<lparr> bufferSize = 4096,
       buffer = replicate 4096 (Finite 0),
       bufferIndex = 0,
       silenceThreshold = Finite (5764607523034235 / 2 ^ 59),
       silenceFrames = 0,
       maxSilenceFrames = 30,
       isActive = False,
       port = [Initialized] \<rparr>"

text \<open>
  \<open>audioLevel\<close>: the accumulation loop of \<open>process\<close> followed by the division by the
  block length.
\<close>

definition audioLevel :: "number list \<Rightarrow> number" where
  "audioLevel input =
     js_div (foldl (\<lambda>acc x. js_add acc (Math_abs x)) (Finite 0) input) (length input)"

text \<open>The speech/silence branch of \<open>process\<close>.\<close>

definition detect :: "CaptionProcessor \<Rightarrow> number list \<Rightarrow> CaptionProcessor" where
  "detect s input =
     (let level = audioLevel input in
      if js_gt level (silenceThreshold s) then
        (let s1 = s\<lparr>silenceFrames := 0\<rparr> in
         if \<not> isActive s1
         then s1\<lparr>isActive := True, port := port s1 @ [SpeechStart level]\<rparr>
         else s1)
      else
        (let s1 = s\<lparr>silenceFrames := silenceFrames s + 1\<rparr> in
         if isActive s1 \<and> silenceFrames s1 > maxSilenceFrames s1
         then s1\<lparr>isActive := False, port := port s1 @ [SpeechEnd level]\<rparr>
         else s1))"

text \<open>\<open>processBuffer\<close>: the window is posted, as a copy, only while the detector is active.\<close>

definition processBuffer :: "CaptionProcessor \<Rightarrow> CaptionProcessor" where
  "processBuffer s =
     (if isActive s then s\<lparr>port := port s @ [ProcessAudio (buffer s)]\<rparr> else s)"

text \<open>
  The buffering loop of \<open>process\<close>, one sample per step. A write past the end of a typed
  array is ignored in JavaScript, and so is \<open>xs[i := v]\<close> past the end of a list.
\<close>

fun bufferSamples :: "CaptionProcessor \<Rightarrow> number list \<Rightarrow> CaptionProcessor" where
  "bufferSamples s [] = s"
| "bufferSamples s (x # xs) =
     (let s1 = s\<lparr>buffer := (buffer s)[bufferIndex s := x],
                 bufferIndex := bufferIndex s + 1\<rparr>
      in bufferSamples
           (if bufferIndex s1 \<ge> bufferSize s1
            then (processBuffer s1)\<lparr>bufferIndex := 0\<rparr>
            else s1) xs)"

text \<open>
  \<open>process\<close>. The argument is the first channel of the first input; a missing channel
  and a channel of length 0 take the same early return and are both the empty list here.
\<close>

definition process :: "CaptionProcessor \<Rightarrow> number list \<Rightarrow> CaptionProcessor" where
  "process s input =
     (if input = [] then s else bufferSamples (detect s input) input)"

text \<open>The audio thread calls \<open>process\<close> once per block, in order.\<close>

definition run :: "CaptionProcessor \<Rightarrow> number list list \<Rightarrow> CaptionProcessor" where
  "run s blocks = foldl process s blocks"

text \<open>
  Vocabulary for stating what the detector does on a stream of blocks. A block is loud
  when it is not empty and the double sum of the absolute values of its samples, taken
  from the first sample to the last, divided by its length, is greater than the threshold;
  \<open>quietRun\<close> counts the non-empty blocks received since the last loud one.
\<close>

definition loud :: "number \<Rightarrow> number list \<Rightarrow> bool" where
  "loud thr b \<longleftrightarrow>
     b \<noteq> [] \<and>
     js_gt (js_div (foldl (\<lambda>acc x. js_add acc (Math_abs x)) (Finite 0) b) (length b)) thr"

definition quietRun :: "number \<Rightarrow> number list list \<Rightarrow> nat" where
  "quietRun thr blocks =
     length (takeWhile (\<lambda>b. \<not> loud thr b) (rev (filter (\<lambda>b. b \<noteq> []) blocks)))"

text \<open>
  The mean absolute amplitude of finite samples, in exact arithmetic, and the blocks on
  which the code computes just that: every sum the loop forms, and the mean, is a double.
\<close>

definition meanAbs :: "real list \<Rightarrow> real" where
  "meanAbs xs = (\<Sum>x\<leftarrow>xs. \<bar>x\<bar>) / real (length xs)"

fun sumsExact :: "real \<Rightarrow> real list \<Rightarrow> bool" where
  "sumsExact acc [] \<longleftrightarrow> True"
| "sumsExact acc (x # xs) \<longleftrightarrow>
     roundDouble (acc + \<bar>x\<bar>) = Finite (acc + \<bar>x\<bar>) \<and> sumsExact (acc + \<bar>x\<bar>) xs"

definition exactBlock :: "real list \<Rightarrow> bool" where
  "exactBlock xs \<longleftrightarrow> sumsExact 0 xs \<and> roundDouble (meanAbs xs) = Finite (meanAbs xs)"

text \<open>
  The full windows of a sample stream: consecutive slices of \<open>n\<close> samples, a shorter
  remainder left out.
\<close>

fun windows :: "nat \<Rightarrow> 'a list \<Rightarrow> 'a list list" where
  "windows n xs =
     (if n = 0 \<or> length xs < n then [] else take n xs # windows n (drop n xs))"

declare windows.simps [simp del]

text \<open>The samples waiting in the window: the ones written since it was last reset.\<close>

definition pending :: "CaptionProcessor \<Rightarrow> number list" where
  "pending s = take (bufferIndex s) (buffer s)"

text \<open>The window of a processor is in order: it has its declared size and the index is inside.\<close>

definition buffer_ok :: "CaptionProcessor \<Rightarrow> bool" where
  "buffer_ok s \<longleftrightarrow> length (buffer s) = bufferSize s \<and> bufferIndex s < bufferSize s"

section \<open>The controller: \<open>ClosedCaptioning\<close>\<close>

text \<open>
  \<open>captions.js\<close> holds the class twice. The second copy is a cut-down variant: its remote
  set-up creates no audio graph and no audio element, skips the worklet, installs a remote
  \<open>onerror\<close> that only logs and no remote \<open>onend\<close>, and swallows its errors. The two
  copies agree on \<open>initialize\<close>, the local handlers, both restart functions and the
  transcript. The model is of the first copy; the remote set-up of the second one is
  modelled next to it, under names ending in \<open>_v2\<close>.
\<close>

text \<open>
  Speakers are the two string tags \<open>'local'\<close> and \<open>'remote'\<close> that the controller
  passes around; the two recognition sessions (\<open>this.speechRecognition\<close> and
  \<open>this.remoteSpeechRecognition\<close>) are named by the party they transcribe.
\<close>

datatype speaker = Local | Remote

record caption =
  speaker :: speaker
  "text" :: string

text \<open>
  Calls into the browser that may throw. Each one made is appended to the \<open>trace\<close> of the
  controller, so that "no start was attempted" is a statement about the trace.
  \<open>document.getElementById\<close>, \<open>classList\<close>, \<open>createElement\<close> and the console do not
  throw and are not traced; \<open>showCaptionContainer\<close> and \<open>hideCaptionContainer\<close>, which
  only toggle a class of the container, are left out.
\<close>

datatype extcall =
    NewSpeechRecognition speaker
  | Start speaker
  | Stop speaker
  | NewAudioContext
  | CreateMediaStreamSource
  | CreateMediaStreamDestination
  | Connect
  | AppendAudioElement
  | AddModule
  | WorkletCreateMediaStreamSource
  | NewAudioWorkletNode
  | WorkletConnect
  | CloseAudioContext

datatype exn = Failed extcall | NoRemoteStream

text \<open>
  The browser at the time of a call: whether \<open>window.SpeechRecognition\<close> (or its webkit
  name) is defined, and which calls throw.
\<close>

record browser =
  speechRecognitionAvailable :: bool
  throws :: "extcall \<Rightarrow> bool"

text \<open>
  The fields of the class. Handles to browser objects are booleans (set or \<open>null\<close>), the
  two streams likewise (given or not). \<open>captionsElement\<close> is the element that
  \<open>document.querySelector\<close> finds for \<open>.captions\<close> inside the container, with the
  lines rendered in it, or \<open>None\<close> when there is none. \<open>timers\<close> are the retry callbacks that \<open>setTimeout\<close>
  holds.
\<close>

record ClosedCaptioning =
  maxHistoryLength :: int
  isActive :: bool
  audioContext :: bool
  captionProcessor :: bool
  speechRecognition :: bool
  remoteSpeechRecognition :: bool
  captionHistory :: "caption list"
  currentSpeaker :: "speaker option"
  localStream :: bool
  remoteStream :: bool
  audioWorkletSupported :: bool
  remoteAudioElement :: bool
  captionsElement :: "caption list option"
  timers :: "speaker list"
  trace :: "extcall list"

text \<open>
  The constructor. \<open>maxLen\<close> is \<open>options.maxHistoryLength\<close> when the caller gives one
  (the default is 5). \<open>doc\<close> is the document before the call: \<open>None\<close> when it has no
  container, in which case \<open>ensureCaptionContainer\<close> creates one with an empty captions
  element, and otherwise the captions element of the container that is there, if any.
\<close>

definition ClosedCaptioning_new ::
    "int option \<Rightarrow> caption list option option \<Rightarrow> bool \<Rightarrow> ClosedCaptioning" where
  "ClosedCaptioning_new maxLen doc workletSupported =
     \<lparr> maxHistoryLength = (case maxLen of None \<Rightarrow> 5 | Some n \<Rightarrow> n),
       isActive = False,
       audioContext = False,
       captionProcessor = False,
       speechRecognition = False,
       remoteSpeechRecognition = False,
       captionHistory = [],
       currentSpeaker = None,
       localStream = False,
       remoteStream = False,
       audioWorkletSupported = workletSupported,
       remoteAudioElement = False,
       captionsElement = (case doc of None \<Rightarrow> Some [] | Some e \<Rightarrow> e),
       timers = [],
       trace = [] \<rparr>"

subsection \<open>The transcript\<close>

text \<open>
  \<open>String.prototype.trim\<close>. A JavaScript string is a sequence of code units; the model
  has the code units below 256, among which the white space and line terminators of
  ECMAScript are TAB, LF, VT, FF, CR, SP and NBSP.
\<close>

definition isWhiteSpace :: "char \<Rightarrow> bool" where
  "isWhiteSpace c \<longleftrightarrow>
     c \<in> set [CHR 0x09, CHR 0x0A, CHR 0x0B, CHR 0x0C, CHR 0x0D, CHR 0x20, CHR 0xA0]"

definition trim :: "string \<Rightarrow> string" where
  "trim s = rev (dropWhile isWhiteSpace (rev (dropWhile isWhiteSpace s)))"

text \<open>\<open>renderCaptions\<close>: the element, when there is one, shows the transcript.\<close>

definition renderCaptions :: "ClosedCaptioning \<Rightarrow> ClosedCaptioning" where
  "renderCaptions s =
     (if captionsElement s = None then s
      else s\<lparr>captionsElement := Some (captionHistory s)\<rparr>)"

text \<open>
  \<open>updateCaption(text, speaker)\<close>. \<open>push\<close> is \<open>@\<close>, \<open>shift\<close> is \<open>tl\<close> (both leave an
  empty array empty), and the assignment to the \<open>text\<close> of the last entry is a list
  update at the last index, which the source guards by \<open>length > 0\<close>.
\<close>

definition updateCaption :: "ClosedCaptioning \<Rightarrow> string \<Rightarrow> speaker \<Rightarrow> ClosedCaptioning" where
  "updateCaption s txt who =
     (if txt = [] \<or> trim txt = [] then s
      else if captionsElement s = None then s
      else
        renderCaptions
          (if currentSpeaker s \<noteq> Some who then
             (let s1 = s\<lparr>currentSpeaker := Some who,
                         captionHistory :=
                           captionHistory s @ [\<lparr>speaker = who, text = trim txt\<rparr>]\<rparr>
              in if int (length (captionHistory s1)) > maxHistoryLength s1
                 then s1\<lparr>captionHistory := tl (captionHistory s1)\<rparr>
                 else s1)
           else if length (captionHistory s) > 0 then
             s\<lparr>captionHistory :=
                 (captionHistory s)[length (captionHistory s) - 1 :=
                    (captionHistory s ! (length (captionHistory s) - 1))\<lparr>text := trim txt\<rparr>]\<rparr>
           else
             s\<lparr>captionHistory :=
                 captionHistory s @ [\<lparr>speaker = who, text = trim txt\<rparr>]\<rparr>))"

text \<open>\<open>updateSpeakerStatus(speaker)\<close>, called when the worklet reports the start of speech.\<close>

definition updateSpeakerStatus :: "ClosedCaptioning \<Rightarrow> speaker \<Rightarrow> ClosedCaptioning" where
  "updateSpeakerStatus s who =
     (if currentSpeaker s \<noteq> Some who then s\<lparr>currentSpeaker := Some who\<rparr> else s)"

text \<open>A sequence of \<open>updateCaption\<close> calls, first call first.\<close>

fun updateCaptions :: "ClosedCaptioning \<Rightarrow> (speaker \<times> string) list \<Rightarrow> ClosedCaptioning" where
  "updateCaptions s [] = s"
| "updateCaptions s ((who, txt) # calls) = updateCaptions (updateCaption s txt who) calls"

subsection \<open>Set-up, restart and stop\<close>

text \<open>
  A method either returns a value or throws, and in both cases leaves a controller behind.
  An \<open>async\<close> method is run to completion in one step: what other handlers do while it
  awaits is not modelled.
\<close>

datatype 'a completion =
    Returns 'a ClosedCaptioning
  | Throws exn ClosedCaptioning

text \<open>One traced call into the browser.\<close>

definition call :: "browser \<Rightarrow> extcall \<Rightarrow> ClosedCaptioning \<Rightarrow> unit completion" where
  "call env c s =
     (let s1 = s\<lparr>trace := trace s @ [c]\<rparr>
      in if throws env c then Throws (Failed c) s1 else Returns () s1)"

text \<open>Sequencing: the next statement runs only when the previous one returned.\<close>

definition andThen ::
    "unit completion \<Rightarrow> (ClosedCaptioning \<Rightarrow> 'a completion) \<Rightarrow> 'a completion" where
  "andThen r f = (case r of Returns u s \<Rightarrow> f s | Throws e s \<Rightarrow> Throws e s)"

text \<open>\<open>try { c } catch (e) { console.error(...) }\<close>: the controller after it, either way.\<close>

definition attempt :: "browser \<Rightarrow> extcall \<Rightarrow> ClosedCaptioning \<Rightarrow> ClosedCaptioning" where
  "attempt env c s = (case call env c s of Returns u s1 \<Rightarrow> s1 | Throws e s1 \<Rightarrow> s1)"

text \<open>
  \<open>initializeSpeechRecognition\<close>. Of the handlers it installs, \<open>onerror\<close> and \<open>onend\<close>
  are further down; \<open>onresult\<close> joins the transcripts of the event and passes them to
  \<open>updateCaption\<close> with the speaker \<open>'local'\<close> (\<open>'remote'\<close> for the remote session).
\<close>

definition initializeSpeechRecognition ::
    "browser \<Rightarrow> ClosedCaptioning \<Rightarrow> unit completion" where
  "initializeSpeechRecognition env s =
     (if \<not> speechRecognitionAvailable env then Returns () s
      else
        andThen (call env (NewSpeechRecognition Local) s) (\<lambda>s.
        call env (Start Local) (s\<lparr>speechRecognition := True\<rparr>)))"

text \<open>\<open>setupAudioWorklet(remoteStream)\<close>.\<close>

definition setupAudioWorklet ::
    "browser \<Rightarrow> ClosedCaptioning \<Rightarrow> bool \<Rightarrow> unit completion" where
  "setupAudioWorklet env s stream =
     (if \<not> stream then Throws NoRemoteStream s
      else
        andThen (if \<not> audioContext s
                 then andThen (call env NewAudioContext s) (\<lambda>s.
                      Returns () (s\<lparr>audioContext := True\<rparr>))
                 else Returns () s) (\<lambda>s.
        andThen (call env AddModule s) (\<lambda>s.
        andThen (call env WorkletCreateMediaStreamSource s) (\<lambda>s.
        andThen (call env NewAudioWorkletNode s) (\<lambda>s.
        call env WorkletConnect (s\<lparr>captionProcessor := True\<rparr>))))))"

text \<open>
  \<open>initializeRemoteTranscription(remoteStream)\<close>. Its \<open>catch\<close> logs and throws the
  error again, so a throw inside is a throw of the method.
\<close>

definition initializeRemoteTranscription ::
    "browser \<Rightarrow> ClosedCaptioning \<Rightarrow> bool \<Rightarrow> unit completion" where
  "initializeRemoteTranscription env s stream =
     (if \<not> stream then Returns () s
      else
        andThen (call env NewAudioContext s) (\<lambda>s.
        andThen (call env CreateMediaStreamSource (s\<lparr>audioContext := True\<rparr>)) (\<lambda>s.
        andThen (call env CreateMediaStreamDestination s) (\<lambda>s.
        andThen (call env Connect s) (\<lambda>s.
        if \<not> speechRecognitionAvailable env then Returns () s
        else
          andThen (call env (NewSpeechRecognition Remote) s) (\<lambda>s.
          andThen (call env AppendAudioElement
                     (s\<lparr>remoteSpeechRecognition := True, remoteAudioElement := True\<rparr>)) (\<lambda>s.
          andThen (call env (Start Remote) s) (\<lambda>s.
          if audioWorkletSupported s then setupAudioWorklet env s stream
          else Returns () s))))))))"

text \<open>
  \<open>initialize(localStream, remoteStream)\<close>: first the body of its \<open>try\<close>, then the
  method with its \<open>catch\<close>.
\<close>

definition initialize_try ::
    "browser \<Rightarrow> ClosedCaptioning \<Rightarrow> bool \<Rightarrow> bool completion" where
  "initialize_try env s stream =
     andThen (initializeSpeechRecognition env s) (\<lambda>s.
     andThen (if stream then initializeRemoteTranscription env s stream else Returns () s) (\<lambda>s.
     Returns True (s\<lparr>isActive := True\<rparr>)))"

definition initialize ::
    "browser \<Rightarrow> ClosedCaptioning \<Rightarrow> bool \<Rightarrow> bool \<Rightarrow> bool completion" where
  "initialize env s local remote =
     (case initialize_try env (s\<lparr>localStream := local, remoteStream := remote\<rparr>) remote of
        Returns b s1 \<Rightarrow> Returns b s1
      | Throws e s1 \<Rightarrow> Returns False s1)"









text \<open>
  \<open>restartSpeechRecognition\<close> and \<open>restartRemoteSpeechRecognition\<close>: a start that
  throws leaves a retry with \<open>setTimeout\<close>.
\<close>

definition restartSpeechRecognition :: "browser \<Rightarrow> ClosedCaptioning \<Rightarrow> ClosedCaptioning" where
  "restartSpeechRecognition env s =
     (if isActive s \<and> speechRecognition s then
        (case call env (Start Local) s of
           Returns u s1 \<Rightarrow> s1
         | Throws e s1 \<Rightarrow> s1\<lparr>timers := timers s1 @ [Local]\<rparr>)
      else s)"

definition restartRemoteSpeechRecognition ::
    "browser \<Rightarrow> ClosedCaptioning \<Rightarrow> ClosedCaptioning" where
  "restartRemoteSpeechRecognition env s =
     (if isActive s \<and> remoteSpeechRecognition s then
        (case call env (Start Remote) s of
           Returns u s1 \<Rightarrow> s1
         | Throws e s1 \<Rightarrow> s1\<lparr>timers := timers s1 @ [Remote]\<rparr>)
      else s)"

text \<open>The retry callback of either restart function, when its timer fires.\<close>

definition retry :: "browser \<Rightarrow> ClosedCaptioning \<Rightarrow> speaker \<Rightarrow> ClosedCaptioning" where
  "retry env s who =
     (let s1 = s\<lparr>timers := remove1 who (timers s)\<rparr>
      in if isActive s1 then attempt env (Start who) s1 else s1)"

text \<open>The \<open>onerror\<close> and \<open>onend\<close> handlers of the local session.\<close>

definition speechRecognition_onerror ::
    "browser \<Rightarrow> ClosedCaptioning \<Rightarrow> string \<Rightarrow> ClosedCaptioning" where
  "speechRecognition_onerror env s err =
     (if err = ''no-speech'' then s else restartSpeechRecognition env s)"

definition speechRecognition_onend :: "browser \<Rightarrow> ClosedCaptioning \<Rightarrow> ClosedCaptioning" where
  "speechRecognition_onend env s =
     (if isActive s then restartSpeechRecognition env s else s)"

text \<open>The \<open>onerror\<close> and \<open>onend\<close> handlers of the remote session.\<close>

definition remoteSpeechRecognition_onerror ::
    "browser \<Rightarrow> ClosedCaptioning \<Rightarrow> string \<Rightarrow> ClosedCaptioning" where
  "remoteSpeechRecognition_onerror env s err =
     (if err \<noteq> ''audio-capture'' \<and> err \<noteq> ''not-allowed''
      then restartRemoteSpeechRecognition env s else s)"

definition remoteSpeechRecognition_onend ::
    "browser \<Rightarrow> ClosedCaptioning \<Rightarrow> ClosedCaptioning" where
  "remoteSpeechRecognition_onend env s =
     (if isActive s then restartRemoteSpeechRecognition env s else s)"

text \<open>
  \<open>stop()\<close>. The rejection of \<open>audioContext.close()\<close> is caught by the promise's own
  \<open>catch\<close>.
\<close>

definition stop :: "browser \<Rightarrow> ClosedCaptioning \<Rightarrow> ClosedCaptioning" where
  "stop env s =
     (let s1 = s\<lparr>isActive := False\<rparr>;
          s2 = (if speechRecognition s1 then attempt env (Stop Local) s1 else s1);
          s3 = (if remoteSpeechRecognition s2 then attempt env (Stop Remote) s2 else s2);
          s4 = (if remoteAudioElement s3 then s3\<lparr>remoteAudioElement := False\<rparr> else s3);
          s5 = (if audioContext s4 then attempt env CloseAudioContext s4 else s4)
      in s5\<lparr>captionHistory := [], currentSpeaker := None\<rparr>)"

text \<open>The controller that a completed method leaves behind.\<close>

definition after :: "'a completion \<Rightarrow> ClosedCaptioning" where
  "after r = (case r of Returns v s \<Rightarrow> s | Throws e s \<Rightarrow> s)"

text \<open>
  Three browsers to run the controller in: one in which recognition is available and
  nothing throws, one in which starting the local session throws, and one in which
  starting the remote session throws. \<open>in_call\<close> is a controller with default options, in
  a fresh document, after \<open>initialize\<close> with both streams in the first of them.
\<close>

definition cooperative :: browser where
  "cooperative = \<lparr> speechRecognitionAvailable = True, throws = (\<lambda>c. False) \<rparr>"

definition busy :: browser where
  "busy = \<lparr> speechRecognitionAvailable = True, throws = (\<lambda>c. c = Start Local) \<rparr>"


definition in_call :: ClosedCaptioning where
  "in_call = after (initialize cooperative (ClosedCaptioning_new None None True) True True)"

text \<open>
  A step of the set-up is orderly from \<open>s\<close> when it leaves the active flag as it is in
  \<open>s\<close> and, when it throws, some call in the trace is one that the browser made throw.
\<close>

definition orderly :: "browser \<Rightarrow> ClosedCaptioning \<Rightarrow> 'a completion \<Rightarrow> bool" where
  "orderly env s r \<longleftrightarrow>
     (case r of
        Returns v s' \<Rightarrow> isActive s' = isActive s
      | Throws e s' \<Rightarrow> isActive s' = isActive s \<and> (\<exists>c \<in> set (trace s'). throws env c))"

section \<open>Properties of numbers\<close>

lemma pow2_powr: "pow2 k = 2 powr (of_int k)"
  by (simp add: pow2_def powr_real_of_int field_simps)

lemma pow2_pos [simp]: "0 < pow2 k"
  by (simp add: pow2_powr)

lemma pow2_nonzero [simp]: "pow2 k \<noteq> 0"
  using pow2_pos [of k] by linarith

lemma pow2_mono: "i \<le> j \<Longrightarrow> pow2 i \<le> pow2 j"
  by (simp add: pow2_powr)

lemma floor_log2:
  assumes "pow2 e \<le> a" and "a < pow2 (e + 1)"
  shows "\<lfloor>log 2 a\<rfloor> = e"
proof -
  have pos: "0 < a" using assms(1) pow2_pos [of e] by linarith
  have 1: "of_int e \<le> log 2 a"
    using assms(1) pos by (simp add: le_log_iff pow2_powr)
  have 2: "log 2 a < of_int e + 1"
    using assms(2) pos by (simp add: log_less_iff pow2_powr)
  from 1 2 show ?thesis by (simp add: floor_unique)
qed

text \<open>Rounding a positive real whose binary exponent is known.\<close>

lemma roundDouble_eval:
  assumes "pow2 e \<le> x" and "x < pow2 (e + 1)"
  shows "roundDouble x =
     (let q = max e (- 1022) - 52;
          y = of_int (roundTiesToEven (x / pow2 q)) * pow2 q
      in if pow2 1024 \<le> y then PlusInfinity else Finite y)"
proof -
  have pos: "0 < x" using assms(1) pow2_pos [of e] by linarith
  then have "\<bar>x\<bar> = x" by simp
  with floor_log2 [OF assms] pos show ?thesis
    by (simp add: roundDouble_def Let_def)
qed

lemma roundTiesToEven_int [simp]: "roundTiesToEven (of_int k) = k"
  by (simp add: roundTiesToEven_def)

text \<open>A normal double rounds to itself.\<close>

lemma roundDouble_exact:
  assumes "pow2 e \<le> x" and "x < pow2 (e + 1)" and "- 1022 \<le> e" and "e \<le> 1023"
    and "x = of_int k * pow2 (e - 52)"
  shows "roundDouble x = Finite x"
proof -
  have q: "max e (- 1022) - 52 = e - 52" using assms(3) by simp
  have "x / pow2 (e - 52) = of_int k" using assms(5) by simp
  then have y: "of_int (roundTiesToEven (x / pow2 (e - 52))) * pow2 (e - 52) = x"
    using assms(5) by simp
  have "x < pow2 1024" using assms(2) pow2_mono [of "e + 1" 1024] assms(4) by simp
  then show ?thesis
    unfolding roundDouble_eval [OF assms(1,2)] Let_def q y by simp
qed

text \<open>
  The literal \<open>0.01\<close> of the constructor, and the sum \<open>0.1 + 0.2\<close> as every JavaScript
  console prints it.
\<close>

lemma literal_0_01: "roundDouble (1 / 100) = Finite (5764607523034235 / 2 ^ 59)"
  using roundDouble_eval [of "- 7" "1 / 100"]
  by (simp add: pow2_def roundTiesToEven_def Let_def)

lemma sum_0_1_0_2:
  "js_add (Finite (3602879701896397 / 2 ^ 55)) (Finite (3602879701896397 / 2 ^ 54))
     = Finite (1351079888211149 / 2 ^ 52)"
  using roundDouble_eval [of "- 2" "3602879701896397 / 2 ^ 55 + 3602879701896397 / 2 ^ 54"]
  by (simp add: pow2_def roundTiesToEven_def Let_def)

lemma roundDouble_small [simp]:
  "roundDouble 1 = Finite 1" "roundDouble 3 = Finite 3" "roundDouble 6 = Finite 6"
  "roundDouble 10 = Finite 10" "roundDouble 15 = Finite 15"
  using roundDouble_eval [of 0 1] roundDouble_eval [of 1 3] roundDouble_eval [of 2 6]
    roundDouble_eval [of 3 10] roundDouble_eval [of 3 15]
  by (simp_all add: pow2_def roundTiesToEven_def Let_def)

text \<open>On a block where nothing is rounded the level is the mean absolute amplitude.\<close>

lemma foldl_sumsExact:
  "sumsExact acc xs \<Longrightarrow>
   foldl (\<lambda>acc x. js_add acc (Math_abs x)) (Finite acc) (map Finite xs)
     = Finite (acc + (\<Sum>x\<leftarrow>xs. \<bar>x\<bar>))"
  by (induction xs arbitrary: acc) (simp_all add: add.assoc)

lemma level_exactBlock:
  "xs \<noteq> [] \<Longrightarrow> exactBlock xs \<Longrightarrow>
   js_div (foldl (\<lambda>acc x. js_add acc (Math_abs x)) (Finite 0) (map Finite xs)) (length xs)
     = Finite (meanAbs xs)"
  using foldl_sumsExact [of 0 xs] by (simp add: exactBlock_def meanAbs_def)

section \<open>Properties of the worklet\<close>

lemma loud_audioLevel: "loud thr b \<longleftrightarrow> b \<noteq> [] \<and> js_gt (audioLevel b) thr"
  by (simp add: loud_def audioLevel_def)

lemma bufferSamples_detector [simp]:
  "CaptionProcessor.isActive (bufferSamples s xs) = CaptionProcessor.isActive s"
  "silenceFrames (bufferSamples s xs) = silenceFrames s"
  "silenceThreshold (bufferSamples s xs) = silenceThreshold s"
  "maxSilenceFrames (bufferSamples s xs) = maxSilenceFrames s"
  "bufferSize (bufferSamples s xs) = bufferSize s"
  by (induction xs arbitrary: s; simp add: Let_def processBuffer_def)+

lemma detect_config [simp]:
  "silenceThreshold (detect s b) = silenceThreshold s"
  "maxSilenceFrames (detect s b) = maxSilenceFrames s"
  "bufferSize (detect s b) = bufferSize s"
  "buffer (detect s b) = buffer s"
  "bufferIndex (detect s b) = bufferIndex s"
  by (simp_all add: detect_def Let_def)

lemma detect_isActive:
  "CaptionProcessor.isActive (detect s b) \<longleftrightarrow>
     js_gt (audioLevel b) (silenceThreshold s) \<or>
     (CaptionProcessor.isActive s \<and> silenceFrames s + 1 \<le> maxSilenceFrames s)"
  by (auto simp add: detect_def Let_def)

lemma detect_silenceFrames:
  "silenceFrames (detect s b) =
     (if js_gt (audioLevel b) (silenceThreshold s) then 0 else silenceFrames s + 1)"
  by (simp add: detect_def Let_def)

lemma process_config [simp]:
  "silenceThreshold (process s b) = silenceThreshold s"
  "maxSilenceFrames (process s b) = maxSilenceFrames s"
  "bufferSize (process s b) = bufferSize s"
  by (simp_all add: process_def)

lemma process_isActive:
  "CaptionProcessor.isActive (process s b) \<longleftrightarrow>
     loud (silenceThreshold s) b \<or>
     (CaptionProcessor.isActive s \<and> (b = [] \<or> silenceFrames s + 1 \<le> maxSilenceFrames s))"
  by (auto simp add: process_def loud_audioLevel detect_isActive)

lemma process_silenceFrames:
  "silenceFrames (process s b) =
     (if b = [] then silenceFrames s
      else if loud (silenceThreshold s) b then 0 else silenceFrames s + 1)"
  by (simp add: process_def loud_audioLevel detect_silenceFrames)

lemma run_snoc: "run s (bs @ [b]) = process (run s bs) b"
  by (simp add: run_def)

lemma run_Nil [simp]: "run s [] = s"
  by (simp add: run_def)

lemma run_config [simp]:
  "silenceThreshold (run s bs) = silenceThreshold s"
  "maxSilenceFrames (run s bs) = maxSilenceFrames s"
  "bufferSize (run s bs) = bufferSize s"
  by (induction bs rule: rev_induct; simp add: run_snoc)+

lemma quietRun_Nil [simp]: "quietRun thr [] = 0"
  by (simp add: quietRun_def)

lemma quietRun_snoc:
  "quietRun thr (bs @ [b]) =
     (if b = [] then quietRun thr bs else if loud thr b then 0 else quietRun thr bs + 1)"
  by (simp add: quietRun_def)

lemma run_silenceFrames:
  "silenceFrames (run s bs) =
     (if \<exists>b \<in> set bs. loud (silenceThreshold s) b then quietRun (silenceThreshold s) bs
      else silenceFrames s + quietRun (silenceThreshold s) bs)"
proof (induction bs rule: rev_induct)
  case Nil
  show ?case by simp
next
  case (snoc b bs)
  show ?case
    by (auto simp add: run_snoc process_silenceFrames quietRun_snoc snoc.IH loud_def)
qed

lemma loud_Nil [simp]: "\<not> loud thr []"
  by (simp add: loud_def)

lemma run_isActive:
  "CaptionProcessor.isActive (run s bs) \<longleftrightarrow>
     (if \<exists>b \<in> set bs. loud (silenceThreshold s) b
      then quietRun (silenceThreshold s) bs \<le> maxSilenceFrames s
      else CaptionProcessor.isActive s \<and> (quietRun (silenceThreshold s) bs = 0 \<or>
             silenceFrames s + quietRun (silenceThreshold s) bs \<le> maxSilenceFrames s))"
proof (induction bs rule: rev_induct)
  case Nil
  show ?case by simp
next
  case (snoc b bs)
  show ?case
    by (auto simp add: run_snoc process_isActive run_silenceFrames quietRun_snoc snoc.IH)
qed

lemma take_Suc_update: "i < length xs \<Longrightarrow> take (Suc i) (xs[i := x]) = take i xs @ [x]"
  by (simp add: take_Suc_conv_app_nth)

lemma windows_short: "length xs < n \<Longrightarrow> windows n xs = []"
  by (simp add: windows.simps)

lemma windows_append:
  "0 < n \<Longrightarrow> length w = n \<Longrightarrow> windows n (w @ xs) = w # windows n xs"
  by (subst windows.simps) simp

lemma drop_window:
  "length w = n \<Longrightarrow> r \<le> length xs \<Longrightarrow>
   drop (n + length xs - r) (w @ xs) = drop (length xs - r) xs"
  by auto

lemma bufferSamples_windows:
  "buffer_ok s \<Longrightarrow>
   buffer_ok (bufferSamples s xs) \<and>
   bufferIndex (bufferSamples s xs) = length (pending s @ xs) mod bufferSize s \<and>
   pending (bufferSamples s xs) =
     drop (length (pending s @ xs) - length (pending s @ xs) mod bufferSize s)
          (pending s @ xs) \<and>
   port (bufferSamples s xs) =
     port s @ (if CaptionProcessor.isActive s
               then map ProcessAudio (windows (bufferSize s) (pending s @ xs))
               else [])"
proof (induction xs arbitrary: s)
  case Nil
  then show ?case by (simp add: buffer_ok_def windows_short pending_def)
next
  case (Cons x xs)
  let ?n = "bufferSize s" and ?i = "bufferIndex s"
  let ?w = "pending s @ [x]"
  from Cons.prems have len: "length (buffer s) = ?n" and idx: "?i < ?n"
    by (simp_all add: buffer_ok_def)
  have w: "take (Suc ?i) ((buffer s)[?i := x]) = ?w"
    using len idx by (simp add: take_Suc_update pending_def)
  show ?case
  proof (cases "Suc ?i < ?n")
    case True
    let ?s2 = "s\<lparr>buffer := (buffer s)[?i := x], bufferIndex := ?i + 1\<rparr>"
    have step: "bufferSamples s (x # xs) = bufferSamples ?s2 xs"
      using True by (simp add: Let_def)
    have ok: "buffer_ok ?s2" using True len by (simp add: buffer_ok_def)
    have pend: "pending ?s2 @ xs = pending s @ x # xs"
      using w by (simp add: pending_def)
    have fields: "bufferSize ?s2 = ?n"
      "CaptionProcessor.isActive ?s2 = CaptionProcessor.isActive s" "port ?s2 = port s"
      by simp_all
    from Cons.IH [OF ok] show ?thesis
      unfolding step pend fields .
  next
    case False
    with idx have full: "Suc ?i = ?n" by simp
    let ?s1 = "s\<lparr>buffer := (buffer s)[?i := x], bufferIndex := ?i + 1\<rparr>"
    let ?s2 = "(processBuffer ?s1)\<lparr>bufferIndex := 0\<rparr>"
    have step: "bufferSamples s (x # xs) = bufferSamples ?s2 xs"
      using False by (simp add: Let_def)
    have ok: "buffer_ok ?s2" using idx len by (simp add: buffer_ok_def processBuffer_def)
    have wlen: "length ?w = ?n" using full len by (simp add: pending_def)
    have whole: "(buffer s)[?i := x] = ?w"
      using w full len by simp
    have n0: "0 < ?n" using idx by simp
    have fields: "bufferSize ?s2 = ?n"
      "CaptionProcessor.isActive ?s2 = CaptionProcessor.isActive s"
      "port ?s2 = port s @ (if CaptionProcessor.isActive s then [ProcessAudio ?w] else [])"
      using whole by (simp_all add: processBuffer_def)
    have pend: "pending ?s2 @ xs = xs" by (simp add: pending_def)
    have all: "pending s @ x # xs = ?w @ xs" by simp
    have lenall: "length (?w @ xs) = ?n + length xs" using wlen by simp
    have modeq: "(?n + length xs) mod ?n = length xs mod ?n" by simp
    have le: "length xs mod ?n \<le> length xs" by (rule mod_less_eq_dividend)
    have dropeq: "drop (?n + length xs - length xs mod ?n) (?w @ xs)
                  = drop (length xs - length xs mod ?n) xs"
      by (rule drop_window [OF wlen le])
    have win: "windows ?n (?w @ xs) = ?w # windows ?n xs"
      by (rule windows_append [OF n0 wlen])
    have len2: "length (pending s @ x # xs) = ?n + length xs" using wlen by simp
    have g3: "drop (length (pending s @ x # xs) - length (pending s @ x # xs) mod ?n)
                (pending s @ x # xs) = drop (length xs - length xs mod ?n) xs"
      unfolding len2 modeq using dropeq by simp
    have g4: "windows ?n (pending s @ x # xs) = ?w # windows ?n xs"
      using win by simp
    note ih = Cons.IH [OF ok, unfolded pend fields]
    have t1: "buffer_ok (bufferSamples s (x # xs))"
      unfolding step using ih by simp
    have t2: "bufferIndex (bufferSamples s (x # xs)) = length (pending s @ x # xs) mod ?n"
      unfolding step len2 modeq using ih by simp
    have t3: "pending (bufferSamples s (x # xs)) =
                drop (length (pending s @ x # xs) - length (pending s @ x # xs) mod ?n)
                  (pending s @ x # xs)"
      unfolding g3 unfolding step using ih by simp
    have t4: "port (bufferSamples s (x # xs)) =
                port s @ (if CaptionProcessor.isActive s
                          then map ProcessAudio (windows ?n (pending s @ x # xs)) else [])"
      unfolding g4 unfolding step using ih by simp
    show ?thesis using t1 t2 t3 t4 by (intro conjI)
  qed
qed

lemma buffer_ok_new: "buffer_ok CaptionProcessor_new"
  by (simp add: buffer_ok_def CaptionProcessor_new_def)

lemma buffer_ok_process: "buffer_ok s \<Longrightarrow> buffer_ok (process s b)"
  using bufferSamples_windows [of "detect s b" b]
  by (simp add: process_def buffer_ok_def)

lemma buffer_ok_run: "buffer_ok s \<Longrightarrow> buffer_ok (run s bs)"
  by (induction bs rule: rev_induct) (simp_all add: run_snoc buffer_ok_process)

lemma pending_detect [simp]: "pending (detect s b) = pending s"
  by (simp add: pending_def)

text \<open>
  Claim C5. Whatever the activity state, \<open>process\<close> copies every sample of a non-empty
  block into the window: afterwards the window index is the number of waiting samples
  modulo the window size, and the waiting samples are the tail of the stream after its
  last full window. The audio messages posted by the call are the full windows of the
  waiting samples followed by the block, in order, each with the window's contents at the
  moment it filled, when the detector is active after this block's detection, and none
  otherwise; the index restarts at 0 after each full window. From the constructor on,
  the window has 4096 samples and the index stays below 4096.
\<close>

theorem window_accumulation:
  "(buffer_ok s \<and> input \<noteq> [] \<longrightarrow>
      (let s' = process s input; all = pending s @ input; n = bufferSize s in
         buffer_ok s' \<and> bufferSize s' = n \<and>
         bufferIndex s' = length all mod n \<and>
         pending s' = drop (length all - length all mod n) all \<and>
         port s' = port (detect s input) @
                   (if CaptionProcessor.isActive s'
                    then map ProcessAudio (windows n all) else []))) \<and>
   buffer_ok (run CaptionProcessor_new blocks) \<and>
   bufferSize (run CaptionProcessor_new blocks) = 4096"
proof (intro conjI impI)
  assume a: "buffer_ok s \<and> input \<noteq> []"
  then have ok: "buffer_ok (detect s input)" by (simp add: buffer_ok_def)
  from a have p: "process s input = bufferSamples (detect s input) input"
    by (simp add: process_def)
  from bufferSamples_windows [OF ok, of input]
  show "let s' = process s input; all = pending s @ input; n = bufferSize s in
         buffer_ok s' \<and> bufferSize s' = n \<and>
         bufferIndex s' = length all mod n \<and>
         pending s' = drop (length all - length all mod n) all \<and>
         port s' = port (detect s input) @
                   (if CaptionProcessor.isActive s'
                    then map ProcessAudio (windows n all) else [])"
    unfolding p Let_def by simp
next
  show "buffer_ok (run CaptionProcessor_new blocks)"
    by (rule buffer_ok_run [OF buffer_ok_new])
next
  show "bufferSize (run CaptionProcessor_new blocks) = 4096"
    by (simp add: CaptionProcessor_new_def)
qed

theorem window_accumulation_witness:
  "buffer_ok \<lparr>bufferSize = 2, buffer = [Finite 0, Finite 0], bufferIndex = 0,
      silenceThreshold = Finite (5764607523034235 / 2 ^ 59), silenceFrames = 0,
      maxSilenceFrames = 30, CaptionProcessor.isActive = False, port = []\<rparr> \<and>
   [Finite 1, Finite 2, Finite 3, Finite 4, Finite 5] \<noteq> [] \<and>
   port (process \<lparr>bufferSize = 2, buffer = [Finite 0, Finite 0], bufferIndex = 0,
      silenceThreshold = Finite (5764607523034235 / 2 ^ 59), silenceFrames = 0,
      maxSilenceFrames = 30, CaptionProcessor.isActive = False, port = []\<rparr>
      [Finite 1, Finite 2, Finite 3, Finite 4, Finite 5])
     = [SpeechStart (Finite 3), ProcessAudio [Finite 1, Finite 2],
        ProcessAudio [Finite 3, Finite 4]] \<and>
   pending (process \<lparr>bufferSize = 2, buffer = [Finite 0, Finite 0], bufferIndex = 0,
      silenceThreshold = Finite (5764607523034235 / 2 ^ 59), silenceFrames = 0,
      maxSilenceFrames = 30, CaptionProcessor.isActive = False, port = []\<rparr>
      [Finite 1, Finite 2, Finite 3, Finite 4, Finite 5])
     = [Finite 5]"
proof -
  let ?s = "\<lparr>bufferSize = 2, buffer = [Finite 0, Finite 0], bufferIndex = 0,
      silenceThreshold = Finite (5764607523034235 / 2 ^ 59), silenceFrames = 0,
      maxSilenceFrames = 30, CaptionProcessor.isActive = False, port = []\<rparr>"
  let ?input = "[Finite 1, Finite 2, Finite 3, Finite 4, Finite 5]"
  have ok: "buffer_ok ?s \<and> ?input \<noteq> []"
    by (simp add: buffer_ok_def)
  have p: "pending ?s = []"
    by (simp add: pending_def)
  have lv: "audioLevel ?input = Finite 3"
    by (simp add: audioLevel_def)
  have d: "port (detect ?s ?input) = [SpeechStart (Finite 3)]"
    by (simp add: detect_def lv Let_def)
  have a: "CaptionProcessor.isActive (process ?s ?input)"
    by (simp add: process_isActive loud_audioLevel lv)
  have w: "windows 2 ?input = [[Finite 1, Finite 2], [Finite 3, Finite 4]]"
    by (simp add: windows.simps)
  from window_accumulation [of ?s ?input "[]"] ok
  have "let s' = process ?s ?input; all = pending ?s @ ?input; n = bufferSize ?s in
         buffer_ok s' \<and> bufferSize s' = n \<and>
         bufferIndex s' = length all mod n \<and>
         pending s' = drop (length all - length all mod n) all \<and>
         port s' = port (detect ?s ?input) @
                   (if CaptionProcessor.isActive s'
                    then map ProcessAudio (windows n all) else [])"
    by blast
  then have "pending (process ?s ?input) = [Finite 5]"
    and "port (process ?s ?input) = [SpeechStart (Finite 3), ProcessAudio [Finite 1, Finite 2],
        ProcessAudio [Finite 3, Finite 4]]"
    unfolding Let_def p d using a w by simp_all
  with ok show ?thesis by simp
qed

lemma new_fields [simp]:
  "silenceThreshold CaptionProcessor_new = Finite (5764607523034235 / 2 ^ 59)"
  "maxSilenceFrames CaptionProcessor_new = 30"
  "silenceFrames CaptionProcessor_new = 0"
  "\<not> CaptionProcessor.isActive CaptionProcessor_new"
  by (simp_all add: CaptionProcessor_new_def)

text \<open>
  Claim C1 as stated fails where the arithmetic rounds. The five single-precision samples
  below add up, without any rounding, to the double \<open>0.05\<close>, which is a little more than
  five times the threshold; the division by 5 then rounds to the threshold itself. So the
  mean absolute amplitude of the block is strictly above the threshold (and above one
  hundredth), the level that the code compares is not, and the detector stays inactive.
\<close>

theorem rounded_level_counterexample:
  "1 / 100 < meanAbs [3355443 / 2 ^ 26, 3355443 / 2 ^ 50, 13 / 2 ^ 56, 0, 0] \<and>
   5764607523034235 / 2 ^ 59 < meanAbs [3355443 / 2 ^ 26, 3355443 / 2 ^ 50, 13 / 2 ^ 56, 0, 0] \<and>
   \<not> CaptionProcessor.isActive CaptionProcessor_new \<and>
   \<not> CaptionProcessor.isActive
       (process CaptionProcessor_new
          (map Finite [3355443 / 2 ^ 26, 3355443 / 2 ^ 50, 13 / 2 ^ 56, 0, 0]))"
proof -
  let ?xs = "[3355443 / 2 ^ 26, 3355443 / 2 ^ 50, 13 / 2 ^ 56, 0, 0 :: real]"
  have m: "1 / 100 < meanAbs ?xs" "5764607523034235 / 2 ^ 59 < meanAbs ?xs"
    by (simp_all add: meanAbs_def)
  have s1: "js_add (Finite 0) (Finite (3355443 / 2 ^ 26)) = Finite (3355443 / 2 ^ 26)"
    using roundDouble_eval [of "- 5" "3355443 / 2 ^ 26"]
    by (simp add: pow2_def roundTiesToEven_def Let_def)
  have s2: "js_add (Finite (3355443 / 2 ^ 26)) (Finite (3355443 / 2 ^ 50))
              = Finite (56294995342131 / 2 ^ 50)"
    using roundDouble_eval [of "- 5" "3355443 / 2 ^ 26 + 3355443 / 2 ^ 50"]
    by (simp add: pow2_def roundTiesToEven_def Let_def)
  have s3: "js_add (Finite (56294995342131 / 2 ^ 50)) (Finite (13 / 2 ^ 56))
              = Finite (3602879701896397 / 2 ^ 56)"
    using roundDouble_eval [of "- 5" "56294995342131 / 2 ^ 50 + 13 / 2 ^ 56"]
    by (simp add: pow2_def roundTiesToEven_def Let_def)
  have s4: "js_add (Finite (3602879701896397 / 2 ^ 56)) (Finite 0)
              = Finite (3602879701896397 / 2 ^ 56)"
    using roundDouble_eval [of "- 5" "3602879701896397 / 2 ^ 56"]
    by (simp add: pow2_def roundTiesToEven_def Let_def)
  have d: "js_div (Finite (3602879701896397 / 2 ^ 56)) 5 = Finite (5764607523034235 / 2 ^ 59)"
    using roundDouble_eval [of "- 7" "3602879701896397 / 2 ^ 56 / 5"]
    by (simp add: pow2_def roundTiesToEven_def Let_def)
  have "foldl (\<lambda>acc x. js_add acc (Math_abs x)) (Finite 0) (map Finite ?xs)
          = js_add (js_add (js_add (js_add (js_add (Finite 0) (Finite (3355443 / 2 ^ 26)))
              (Finite (3355443 / 2 ^ 50))) (Finite (13 / 2 ^ 56))) (Finite 0)) (Finite 0)"
    by simp
  then have lv: "audioLevel (map Finite ?xs) = Finite (5764607523034235 / 2 ^ 59)"
    unfolding audioLevel_def s1 s2 s3 s4 using d by simp
  have q: "\<not> loud (Finite (5764607523034235 / 2 ^ 59)) (map Finite ?xs)"
    unfolding loud_audioLevel lv by simp
  have "\<not> CaptionProcessor.isActive (process CaptionProcessor_new (map Finite ?xs))"
    using q by (simp add: process_isActive)
  with m show ?thesis by simp
qed

text \<open>
  Claim C1, amended. The threshold is the double \<open>0.01\<close>, and the level of a block is
  what the loop computes: the double sum of the absolute values of its samples, first to
  last, divided by its length; this is the mean absolute amplitude on every block where
  no operation rounds. Let the detector start in the constructor's state (inactive,
  counter 0, hangover 30) and receive any blocks, then one more block. It goes from
  inactive to active exactly when it is inactive and that block is loud (not empty, level
  strictly above the threshold), and a loud block resets the counter to 0. It goes from
  active to inactive exactly when it is active and the block is a non-empty one that is
  not loud and takes the counter above 30. The counter is the number of non-empty blocks
  since the last loud one, the detector is active exactly when a loud block has been seen
  and at most 30 that are not loud since, and so it turns inactive exactly on the 31st
  such block after a loud one.
\<close>

theorem detector_transitions:
  "let s = run CaptionProcessor_new blocks; s' = process s input;
       thr = silenceThreshold CaptionProcessor_new
   in thr = roundDouble (1 / 100) \<and>
      thr = Finite (5764607523034235 / 2 ^ 59) \<and>
      audioLevel input =
        js_div (foldl (\<lambda>acc x. js_add acc (Math_abs x)) (Finite 0) input) (length input) \<and>
      (loud thr input \<longleftrightarrow> input \<noteq> [] \<and> js_gt (audioLevel input) thr) \<and>
      (xs \<noteq> [] \<and> exactBlock xs \<longrightarrow>
         audioLevel (map Finite xs) = Finite (meanAbs xs) \<and>
         (loud thr (map Finite xs) \<longleftrightarrow> 5764607523034235 / 2 ^ 59 < meanAbs xs)) \<and>
      ((\<not> CaptionProcessor.isActive s \<and> CaptionProcessor.isActive s') \<longleftrightarrow>
         (\<not> CaptionProcessor.isActive s \<and> loud thr input)) \<and>
      (loud thr input \<longrightarrow> silenceFrames s' = 0) \<and>
      ((CaptionProcessor.isActive s \<and> \<not> CaptionProcessor.isActive s') \<longleftrightarrow>
         (CaptionProcessor.isActive s \<and> input \<noteq> [] \<and> \<not> loud thr input \<and>
          silenceFrames s' > 30)) \<and>
      silenceFrames s = quietRun thr blocks \<and>
      (CaptionProcessor.isActive s \<longleftrightarrow>
         (\<exists>b \<in> set blocks. loud thr b) \<and> quietRun thr blocks \<le> 30) \<and>
      ((CaptionProcessor.isActive s \<and> \<not> CaptionProcessor.isActive s') \<longleftrightarrow>
         ((\<exists>b \<in> set blocks. loud thr b) \<and> input \<noteq> [] \<and>
          quietRun thr (blocks @ [input]) = 31))"
proof -
  let ?s = "run CaptionProcessor_new blocks"
  let ?t = "Finite (5764607523034235 / 2 ^ 59)"
  have thr: "silenceThreshold CaptionProcessor_new = ?t" by simp
  have lit: "?t = roundDouble (1 / 100)" by (simp add: literal_0_01)
  have lev: "audioLevel input =
      js_div (foldl (\<lambda>acc x. js_add acc (Math_abs x)) (Finite 0) input) (length input)"
    by (simp add: audioLevel_def)
  have ld: "loud ?t input \<longleftrightarrow> input \<noteq> [] \<and> js_gt (audioLevel input) ?t"
    by (rule loud_audioLevel)
  have ex: "xs \<noteq> [] \<and> exactBlock xs \<longrightarrow>
         audioLevel (map Finite xs) = Finite (meanAbs xs) \<and>
         (loud ?t (map Finite xs) \<longleftrightarrow> 5764607523034235 / 2 ^ 59 < meanAbs xs)"
    using level_exactBlock [of xs] by (auto simp add: loud_def audioLevel_def)
  have sf: "silenceFrames ?s = quietRun ?t blocks"
    by (simp add: run_silenceFrames)
  have act: "CaptionProcessor.isActive ?s \<longleftrightarrow>
      (\<exists>b \<in> set blocks. loud ?t b) \<and> quietRun ?t blocks \<le> 30"
    by (simp add: run_isActive)
  have up: "(\<not> CaptionProcessor.isActive ?s \<and> CaptionProcessor.isActive (process ?s input)) \<longleftrightarrow>
      (\<not> CaptionProcessor.isActive ?s \<and> loud ?t input)"
    by (auto simp add: process_isActive)
  have zero: "loud ?t input \<longrightarrow> silenceFrames (process ?s input) = 0"
    by (simp add: process_silenceFrames)
  have down: "(CaptionProcessor.isActive ?s \<and> \<not> CaptionProcessor.isActive (process ?s input)) \<longleftrightarrow>
        (CaptionProcessor.isActive ?s \<and> input \<noteq> [] \<and> \<not> loud ?t input \<and>
         silenceFrames (process ?s input) > 30)"
    by (auto simp add: process_isActive process_silenceFrames)
  have down31:
    "(CaptionProcessor.isActive ?s \<and> \<not> CaptionProcessor.isActive (process ?s input)) \<longleftrightarrow>
        ((\<exists>b \<in> set blocks. loud ?t b) \<and> input \<noteq> [] \<and>
         quietRun ?t (blocks @ [input]) = 31)"
    unfolding down unfolding act by (auto simp add: process_silenceFrames sf quietRun_snoc)
  have same: "?t = ?t" by simp
  show ?thesis
    unfolding Let_def thr using lit same lev ld ex sf act up zero down down31 by (intro conjI)
qed

lemma quietRun_replicate:
  "loud thr l \<Longrightarrow> q \<noteq> [] \<Longrightarrow> \<not> loud thr q \<Longrightarrow>
   quietRun thr ((bs @ [l]) @ replicate n q) = n"
proof (induction n)
  case 0
  then show ?case by (auto simp add: quietRun_snoc)
next
  case (Suc n)
  have "(bs @ [l]) @ replicate (Suc n) q = ((bs @ [l]) @ replicate n q) @ [q]"
    by (simp add: replicate_append_same)
  then show ?case using Suc by (simp only: quietRun_snoc) simp
qed

theorem detector_transitions_witness:
  "exactBlock [1] \<and>
   CaptionProcessor.isActive
     (run CaptionProcessor_new ([Finite 1] # replicate 30 [Finite 0])) \<and>
   \<not> CaptionProcessor.isActive
       (process (run CaptionProcessor_new ([Finite 1] # replicate 30 [Finite 0])) [Finite 0]) \<and>
   \<not> CaptionProcessor.isActive (run CaptionProcessor_new []) \<and>
   CaptionProcessor.isActive (process (run CaptionProcessor_new []) [Finite 1])"
proof -
  let ?t = "Finite (5764607523034235 / 2 ^ 59)"
  let ?bs = "[Finite 1] # replicate 30 [Finite 0]"
  have thr: "silenceThreshold CaptionProcessor_new = ?t" by simp
  note late = detector_transitions [of ?bs "[Finite 0]" "[1]", unfolded Let_def thr]
  note early = detector_transitions [of "[]" "[Finite 1]" "[1]", unfolded Let_def thr]
  have e: "exactBlock [1]"
    by (simp add: exactBlock_def meanAbs_def)
  have "[1::real] \<noteq> [] \<and> exactBlock [1]" using e by simp
  with early have "loud ?t (map Finite [1]) \<longleftrightarrow> 5764607523034235 / 2 ^ 59 < meanAbs [1]"
    by blast
  then have l1: "loud ?t [Finite 1]"
    by (simp add: meanAbs_def)
  have l0: "\<not> loud ?t [Finite 0]"
    by (simp add: loud_def roundDouble_def)
  have "quietRun ?t (([] @ [[Finite 1]]) @ replicate 30 [Finite 0]) = 30"
    by (rule quietRun_replicate [OF l1 _ l0]) simp
  then have q30: "quietRun ?t ?bs = 30"
    by simp
  have q31: "quietRun ?t (?bs @ [[Finite 0]]) = 31"
    unfolding quietRun_snoc using q30 l0 by simp
  have some: "\<exists>b \<in> set ?bs. loud ?t b"
    using l1 by simp
  from late have act: "CaptionProcessor.isActive (run CaptionProcessor_new ?bs) \<longleftrightarrow>
      (\<exists>b \<in> set ?bs. loud ?t b) \<and> quietRun ?t ?bs \<le> 30"
    by blast
  from late have down:
    "(CaptionProcessor.isActive (run CaptionProcessor_new ?bs) \<and>
      \<not> CaptionProcessor.isActive (process (run CaptionProcessor_new ?bs) [Finite 0])) \<longleftrightarrow>
     ((\<exists>b \<in> set ?bs. loud ?t b) \<and> [Finite 0] \<noteq> [] \<and>
      quietRun ?t (?bs @ [[Finite 0]]) = 31)"
    by blast
  from early have act0: "CaptionProcessor.isActive (run CaptionProcessor_new []) \<longleftrightarrow>
      (\<exists>b \<in> set []. loud ?t b) \<and> quietRun ?t [] \<le> 30"
    by blast
  from early have up:
    "(\<not> CaptionProcessor.isActive (run CaptionProcessor_new []) \<and>
      CaptionProcessor.isActive (process (run CaptionProcessor_new []) [Finite 1])) \<longleftrightarrow>
     (\<not> CaptionProcessor.isActive (run CaptionProcessor_new []) \<and> loud ?t [Finite 1])"
    by blast
  have a: "CaptionProcessor.isActive (run CaptionProcessor_new ?bs)"
    unfolding act q30 using some by simp
  have b: "\<not> CaptionProcessor.isActive (process (run CaptionProcessor_new ?bs) [Finite 0])"
    using down a some q31 by blast
  have c: "\<not> CaptionProcessor.isActive (run CaptionProcessor_new [])"
    unfolding act0 by simp
  have d: "CaptionProcessor.isActive (process (run CaptionProcessor_new []) [Finite 1])"
    using up c l1 by blast
  from e a b c d show ?thesis by (intro conjI)
qed

section \<open>Properties of the transcript\<close>

lemma trim_empty_iff: "trim s = [] \<longleftrightarrow> (\<forall>c \<in> set s. isWhiteSpace c)"
proof -
  have "dropWhile isWhiteSpace s \<noteq> [] \<Longrightarrow>
        \<not> (\<forall>c \<in> set (dropWhile isWhiteSpace s). isWhiteSpace c)"
    using hd_dropWhile [of isWhiteSpace s] hd_in_set [of "dropWhile isWhiteSpace s"] by blast
  then have "(\<forall>c \<in> set (dropWhile isWhiteSpace s). isWhiteSpace c) \<longleftrightarrow>
             dropWhile isWhiteSpace s = []"
    by (cases "dropWhile isWhiteSpace s = []") (simp_all del: dropWhile_eq_Nil_conv)
  then show ?thesis
    by (simp add: trim_def dropWhile_eq_Nil_conv)
qed

text \<open>
  Claim C10. A call of \<open>updateCaption\<close> whose text is empty or has white space only
  returns the controller as it was: transcript, current speaker and every other field.
\<close>

theorem blank_caption_ignored:
  "(\<forall>c \<in> set txt. isWhiteSpace c) \<Longrightarrow> updateCaption s txt who = s"
  by (simp add: updateCaption_def trim_empty_iff)

theorem blank_caption_ignored_witness:
  "isWhiteSpace (CHR 0x20) \<and> isWhiteSpace (CHR 0x09) \<and> isWhiteSpace (CHR 0xA0) \<and>
   updateCaption (ClosedCaptioning_new None None True) [CHR 0x20, CHR 0x09, CHR 0xA0] Remote
     = ClosedCaptioning_new None None True"
proof -
  have w: "isWhiteSpace (CHR 0x20)" "isWhiteSpace (CHR 0x09)" "isWhiteSpace (CHR 0xA0)"
    by (simp_all add: isWhiteSpace_def)
  then have h: "\<forall>c \<in> set [CHR 0x20, CHR 0x09, CHR 0xA0]. isWhiteSpace c"
    by simp
  from blank_caption_ignored [OF h] w show ?thesis by blast
qed

lemma trim_hi [simp]: "trim ''hi'' = ''hi''" "trim ''hi there'' = ''hi there''"
  "trim ''hello'' = ''hello''" "trim ''hello there'' = ''hello there''"
  by (simp_all add: trim_def isWhiteSpace_def)

text \<open>
  Claim C4. With a maximum of 2, in a fresh document, the calls (local, "hi"),
  (local, "hi there"), (remote, "hello") leave the transcript
  [{local, "hi there"}, {remote, "hello"}].
\<close>

theorem example_transcript:
  "captionHistory
     (updateCaptions (ClosedCaptioning_new (Some 2) None worklet)
        [(Local, ''hi''), (Local, ''hi there''), (Remote, ''hello'')])
   = [\<lparr>speaker = Local, text = ''hi there''\<rparr>, \<lparr>speaker = Remote, text = ''hello''\<rparr>]"
  by (simp add: ClosedCaptioning_new_def updateCaption_def renderCaptions_def Let_def)

text \<open>
  Claim C3 says that a fragment is appended when its speaker differs from the speaker of
  the last entry and overwrites the last entry otherwise, also after
  \<open>updateSpeakerStatus\<close>. The source compares with \<open>currentSpeaker\<close> instead. After
  (local, "hello") and \<open>updateSpeakerStatus('remote')\<close> the transcript still ends with the
  local entry; the remote fragment "hi" then overwrites the text of that local entry, and
  the local fragment "hello there" is appended as a second local entry.
\<close>

theorem speaker_status_misattributes:
  "let s1 = updateCaption (ClosedCaptioning_new None None True) ''hello'' Local;
       s2 = updateSpeakerStatus s1 Remote
   in captionHistory s2 = [\<lparr>speaker = Local, text = ''hello''\<rparr>] \<and>
      captionHistory (updateCaption s2 ''hi'' Remote) = [\<lparr>speaker = Local, text = ''hi''\<rparr>] \<and>
      captionHistory (updateCaption s2 ''hello there'' Local)
        = [\<lparr>speaker = Local, text = ''hello''\<rparr>, \<lparr>speaker = Local, text = ''hello there''\<rparr>]"
  by (simp add: ClosedCaptioning_new_def updateCaption_def updateSpeakerStatus_def
        renderCaptions_def Let_def)

text \<open>
  Claim C2 as stated fails for a maximum of 0: the first fragment is appended and evicted
  at once, and the second one of the same speaker finds an empty transcript and is
  pushed by the branch that has no length check, so the transcript has one entry.
\<close>

theorem zero_capacity_counterexample:
  "\<not> int (length (captionHistory
        (updateCaptions (ClosedCaptioning_new (Some 0) None False)
           [(Local, ''hi''), (Local, ''hi there'')])))
      \<le> maxHistoryLength
          (updateCaptions (ClosedCaptioning_new (Some 0) None False)
             [(Local, ''hi''), (Local, ''hi there'')])"
  by (simp add: ClosedCaptioning_new_def updateCaption_def renderCaptions_def Let_def)

lemma renderCaptions_fields [simp]:
  "captionHistory (renderCaptions s) = captionHistory s"
  "maxHistoryLength (renderCaptions s) = maxHistoryLength s"
  "currentSpeaker (renderCaptions s) = currentSpeaker s"
  by (simp_all add: renderCaptions_def)

lemma updateCaption_max [simp]:
  "maxHistoryLength (updateCaption s txt who) = maxHistoryLength s"
  by (simp add: updateCaption_def Let_def)

lemma updateCaption_bounded:
  "1 \<le> maxHistoryLength s \<Longrightarrow> int (length (captionHistory s)) \<le> maxHistoryLength s \<Longrightarrow>
   int (length (captionHistory (updateCaption s txt who))) \<le> maxHistoryLength s"
  by (auto simp add: updateCaption_def Let_def)

lemma updateCaptions_max [simp]:
  "maxHistoryLength (updateCaptions s calls) = maxHistoryLength s"
  by (induction s calls rule: updateCaptions.induct) simp_all

lemma updateCaptions_bounded:
  "1 \<le> maxHistoryLength s \<Longrightarrow> int (length (captionHistory s)) \<le> maxHistoryLength s \<Longrightarrow>
   int (length (captionHistory (updateCaptions s calls))) \<le> maxHistoryLength s"
proof (induction s calls rule: updateCaptions.induct)
  case (1 s)
  then show ?case by simp
next
  case (2 s who t calls)
  from 2 show ?case by (simp add: updateCaption_bounded)
qed

lemma updateCaption_appends:
  "trim txt \<noteq> [] \<Longrightarrow> captionsElement s \<noteq> None \<Longrightarrow> currentSpeaker s \<noteq> Some who \<Longrightarrow>
   1 \<le> maxHistoryLength s \<Longrightarrow> int (length (captionHistory s)) \<le> maxHistoryLength s \<Longrightarrow>
   captionHistory (updateCaption s txt who) =
     (if int (length (captionHistory s)) = maxHistoryLength s
      then tl (captionHistory s) @ [\<lparr>speaker = who, text = trim txt\<rparr>]
      else captionHistory s @ [\<lparr>speaker = who, text = trim txt\<rparr>])"
  by (cases "captionHistory s") (auto simp add: updateCaption_def Let_def trim_def)

lemma updateCaption_overwrites:
  "trim txt \<noteq> [] \<Longrightarrow> captionsElement s \<noteq> None \<Longrightarrow> currentSpeaker s = Some who \<Longrightarrow>
   captionHistory s \<noteq> [] \<Longrightarrow>
   captionHistory (updateCaption s txt who) =
     butlast (captionHistory s) @ [(last (captionHistory s))\<lparr>text := trim txt\<rparr>]"
proof -
  assume h: "captionHistory s \<noteq> []" and a: "trim txt \<noteq> []" "captionsElement s \<noteq> None"
    "currentSpeaker s = Some who"
  from h obtain ys y where ys: "captionHistory s = ys @ [y]"
    by (metis append_butlast_last_id)
  from a have t: "txt \<noteq> []" by (auto simp add: trim_def)
  show ?thesis using a t by (auto simp add: updateCaption_def ys)
qed

lemma stop_history [simp]: "captionHistory (stop env s) = []"
  by (simp add: stop_def Let_def)

text \<open>
  Claim C2, amended. Let the maximum be at least 1 and the transcript within it. Then
  after any sequence of \<open>updateCaption\<close> calls the maximum is the same and the transcript
  is within it; and a call with a non-blank text of a speaker other than the current
  one, with the captions element in place, appends the new entry at the end, dropping
  exactly the first entry when the transcript was full and nothing otherwise. The
  transcript is empty after the constructor and after \<open>stop\<close>, and
  \<open>updateSpeakerStatus\<close> does not touch it.
\<close>

theorem transcript_bounded:
  "(1 \<le> maxHistoryLength s \<and> int (length (captionHistory s)) \<le> maxHistoryLength s \<longrightarrow>
      maxHistoryLength (updateCaptions s calls) = maxHistoryLength s \<and>
      int (length (captionHistory (updateCaptions s calls))) \<le> maxHistoryLength s \<and>
      (trim txt \<noteq> [] \<and> captionsElement s \<noteq> None \<and> currentSpeaker s \<noteq> Some who \<longrightarrow>
         captionHistory (updateCaption s txt who) =
           (if int (length (captionHistory s)) = maxHistoryLength s
            then tl (captionHistory s) @ [\<lparr>speaker = who, text = trim txt\<rparr>]
            else captionHistory s @ [\<lparr>speaker = who, text = trim txt\<rparr>]))) \<and>
   captionHistory (ClosedCaptioning_new maxLen doc worklet) = [] \<and>
   captionHistory (stop env s) = [] \<and>
   captionHistory (updateSpeakerStatus s who) = captionHistory s"
proof -
  have fresh: "captionHistory (ClosedCaptioning_new maxLen doc worklet) = []"
    by (simp add: ClosedCaptioning_new_def)
  have status: "captionHistory (updateSpeakerStatus s who) = captionHistory s"
    by (simp add: updateSpeakerStatus_def)
  show ?thesis
    using updateCaptions_bounded [of s calls] updateCaption_appends [of "txt" s who] fresh status
    by simp
qed

theorem transcript_bounded_witness:
  "1 \<le> maxHistoryLength
          (updateCaptions (ClosedCaptioning_new (Some 2) None False)
             [(Local, ''hi''), (Remote, ''hello'')]) \<and>
   captionHistory
     (updateCaptions (ClosedCaptioning_new (Some 2) None False)
        [(Local, ''hi''), (Remote, ''hello'')])
     = [\<lparr>speaker = Local, text = ''hi''\<rparr>, \<lparr>speaker = Remote, text = ''hello''\<rparr>] \<and>
   captionHistory
     (updateCaption
        (updateCaptions (ClosedCaptioning_new (Some 2) None False)
           [(Local, ''hi''), (Remote, ''hello'')]) ''hello there'' Local)
     = [\<lparr>speaker = Remote, text = ''hello''\<rparr>, \<lparr>speaker = Local, text = ''hello there''\<rparr>]"
proof -
  let ?s = "updateCaptions (ClosedCaptioning_new (Some 2) None False)
              [(Local, ''hi''), (Remote, ''hello'')]"
  have m: "maxHistoryLength ?s = 2" by (simp add: ClosedCaptioning_new_def)
  have h: "captionHistory ?s
             = [\<lparr>speaker = Local, text = ''hi''\<rparr>, \<lparr>speaker = Remote, text = ''hello''\<rparr>]"
    and c: "currentSpeaker ?s = Some Remote" and e: "captionsElement ?s \<noteq> None"
    by (simp_all add: ClosedCaptioning_new_def updateCaption_def renderCaptions_def Let_def)
  have pre: "1 \<le> maxHistoryLength ?s \<and> int (length (captionHistory ?s)) \<le> maxHistoryLength ?s"
    unfolding m h by simp
  have app: "trim ''hello there'' \<noteq> [] \<and> captionsElement ?s \<noteq> None \<and>
             currentSpeaker ?s \<noteq> Some Local"
    unfolding c using e by simp
  from transcript_bounded [of ?s "[]" "''hello there''" Local] pre app
  have "captionHistory (updateCaption ?s ''hello there'' Local) =
          (if int (length (captionHistory ?s)) = maxHistoryLength ?s
           then tl (captionHistory ?s) @ [\<lparr>speaker = Local, text = trim ''hello there''\<rparr>]
           else captionHistory ?s @ [\<lparr>speaker = Local, text = trim ''hello there''\<rparr>])"
    by blast
  then have r: "captionHistory (updateCaption ?s ''hello there'' Local)
          = [\<lparr>speaker = Remote, text = ''hello''\<rparr>, \<lparr>speaker = Local, text = ''hello there''\<rparr>]"
    unfolding m h by simp
  have one: "1 \<le> maxHistoryLength ?s" unfolding m by simp
  from one h r show ?thesis by (intro conjI)
qed

section \<open>Properties of set-up, restart and stop\<close>

lemma orderly_call: "isActive s1 = isActive s \<Longrightarrow> orderly env s (call env c s1)"
  by (simp add: orderly_def call_def Let_def)

lemma orderly_Returns: "isActive s1 = isActive s \<Longrightarrow> orderly env s (Returns v s1)"
  by (simp add: orderly_def)

lemma orderly_andThen:
  assumes "orderly env s r" and "\<And>s1. isActive s1 = isActive s \<Longrightarrow> orderly env s (f s1)"
  shows "orderly env s (andThen r f)"
proof (cases r)
  case (Returns u s1)
  with assms(1) have "isActive s1 = isActive s" by (simp add: orderly_def)
  from assms(2) [OF this] Returns show ?thesis by (simp add: andThen_def)
next
  case (Throws e s1)
  then show ?thesis using assms(1) by (simp add: andThen_def orderly_def)
qed

lemma orderly_initializeSpeechRecognition:
  "isActive s1 = isActive s \<Longrightarrow> orderly env s (initializeSpeechRecognition env s1)"
  by (simp add: initializeSpeechRecognition_def orderly_andThen orderly_call orderly_Returns)

lemma orderly_setupAudioWorklet:
  "isActive s1 = isActive s \<Longrightarrow> orderly env s (setupAudioWorklet env s1 True)"
  by (simp add: setupAudioWorklet_def orderly_andThen orderly_call orderly_Returns)

lemma orderly_initializeRemoteTranscription:
  "isActive s1 = isActive s \<Longrightarrow> orderly env s (initializeRemoteTranscription env s1 stream)"
  by (cases stream)
     (simp_all add: initializeRemoteTranscription_def orderly_andThen orderly_call
        orderly_Returns orderly_setupAudioWorklet)

lemma initialize_try_Throws:
  assumes "initialize_try env s stream = Throws e s'"
  shows "isActive s' = isActive s \<and> (\<exists>c \<in> set (trace s'). throws env c)"
proof (cases "initializeSpeechRecognition env s")
  case (Throws e1 s1)
  with assms have "e1 = e" "s1 = s'" by (simp_all add: initialize_try_def andThen_def)
  with Throws orderly_initializeSpeechRecognition [of s s env] show ?thesis
    by (simp add: orderly_def)
next
  case (Returns u s1)
  with orderly_initializeSpeechRecognition [of s s env]
  have a1: "isActive s1 = isActive s" by (simp add: orderly_def)
  let ?r = "if stream then initializeRemoteTranscription env s1 stream else Returns () s1"
  have o: "orderly env s ?r"
    using a1 by (simp add: orderly_initializeRemoteTranscription orderly_Returns)
  from assms Returns have "?r = Throws e s'"
    by (cases ?r) (simp_all add: initialize_try_def andThen_def)
  with o show ?thesis by (simp add: orderly_def)
qed

lemma initialize_try_Returns:
  "initialize_try env s stream = Returns b s' \<Longrightarrow> b \<and> isActive s'"
  by (auto simp add: initialize_try_def andThen_def split: completion.splits)





lemma in_call_fields:
  "isActive in_call" "speechRecognition in_call" "remoteSpeechRecognition in_call"
  "timers in_call = []"
  "trace in_call =
     [NewSpeechRecognition Local, Start Local, NewAudioContext,
      CreateMediaStreamSource, CreateMediaStreamDestination, Connect,
      NewSpeechRecognition Remote, AppendAudioElement, Start Remote,
      AddModule, WorkletCreateMediaStreamSource, NewAudioWorkletNode, WorkletConnect]"
  by (simp_all add: in_call_def after_def initialize_def initialize_try_def
        initializeSpeechRecognition_def initializeRemoteTranscription_def setupAudioWorklet_def
        andThen_def call_def cooperative_def ClosedCaptioning_new_def Let_def)


text \<open>
  Claim C8. The local \<open>onerror\<close> handler returns the controller unchanged on
  \<open>'no-speech'\<close>: no start in the trace, no timer, the same active flag, transcript and
  current speaker.
\<close>

theorem no_speech_ignored:
  "speechRecognition_onerror env s ''no-speech'' = s"
  by (simp add: speechRecognition_onerror_def)

text \<open>
  Claim C7 says that \<open>'not-allowed'\<close> leads to no restart in either session. In a call
  that is set up and active, the remote handler indeed leaves the controller as it is,
  but the local handler, which exempts \<open>'no-speech'\<close> only, starts the local session
  again.
\<close>

theorem local_denial_restarts:
  "isActive in_call \<and> speechRecognition in_call \<and>
   trace (speechRecognition_onerror cooperative in_call ''not-allowed'')
     = trace in_call @ [Start Local] \<and>
   remoteSpeechRecognition_onerror cooperative in_call ''not-allowed'' = in_call"
  by (simp add: in_call_fields speechRecognition_onerror_def restartSpeechRecognition_def
        remoteSpeechRecognition_onerror_def call_def cooperative_def Let_def)

lemma attempt_isActive [simp]: "isActive (attempt env c s) = isActive s"
  by (simp add: attempt_def call_def Let_def)

text \<open>
  Claim C9. While the active flag is false, neither restart function, none of the
  \<open>onend\<close> and \<open>onerror\<close> handlers and no retry callback changes the controller,
  except that a retry callback that fired is no longer pending: in particular no start is
  added to the trace. The flag is false after \<open>stop\<close>, after the constructor, and it is
  as before after an \<open>initialize\<close> that returned false.
\<close>

theorem inactive_never_starts:
  "(\<not> isActive s \<longrightarrow>
      restartSpeechRecognition env s = s \<and>
      restartRemoteSpeechRecognition env s = s \<and>
      speechRecognition_onend env s = s \<and>
      remoteSpeechRecognition_onend env s = s \<and>
      speechRecognition_onerror env s err = s \<and>
      remoteSpeechRecognition_onerror env s err = s \<and>
      retry env s who = s\<lparr>timers := remove1 who (timers s)\<rparr>) \<and>
   \<not> isActive (stop env s) \<and>
   \<not> isActive (ClosedCaptioning_new maxLen doc worklet) \<and>
   (initialize env s local remote = Returns False s' \<longrightarrow> isActive s' = isActive s)"
proof -
  have quiet: "\<not> isActive s \<longrightarrow>
      restartSpeechRecognition env s = s \<and>
      restartRemoteSpeechRecognition env s = s \<and>
      speechRecognition_onend env s = s \<and>
      remoteSpeechRecognition_onend env s = s \<and>
      speechRecognition_onerror env s err = s \<and>
      remoteSpeechRecognition_onerror env s err = s \<and>
      retry env s who = s\<lparr>timers := remove1 who (timers s)\<rparr>"
    by (simp add: restartSpeechRecognition_def restartRemoteSpeechRecognition_def
          speechRecognition_onend_def remoteSpeechRecognition_onend_def
          speechRecognition_onerror_def remoteSpeechRecognition_onerror_def retry_def Let_def)
  have stopped: "\<not> isActive (stop env s)"
    by (simp add: stop_def attempt_isActive Let_def)
  have fresh: "\<not> isActive (ClosedCaptioning_new maxLen doc worklet)"
    by (simp add: ClosedCaptioning_new_def)
  have failed: "initialize env s local remote = Returns False s' \<longrightarrow> isActive s' = isActive s"
    using initialize_try_Returns [of env "s\<lparr>localStream := local, remoteStream := remote\<rparr>" remote]
      initialize_try_Throws [of env "s\<lparr>localStream := local, remoteStream := remote\<rparr>" remote]
    by (auto simp add: initialize_def split: completion.splits)
  from quiet stopped fresh failed show ?thesis by (intro conjI)
qed

theorem inactive_never_starts_witness:
  "\<not> isActive (stop cooperative (restartSpeechRecognition busy in_call)) \<and>
   timers (stop cooperative (restartSpeechRecognition busy in_call)) = [Local] \<and>
   speechRecognition (stop cooperative (restartSpeechRecognition busy in_call)) \<and>
   trace (retry cooperative (stop cooperative (restartSpeechRecognition busy in_call)) Local)
     = trace (stop cooperative (restartSpeechRecognition busy in_call)) \<and>
   trace (speechRecognition_onerror cooperative
            (stop cooperative (restartSpeechRecognition busy in_call)) ''network'')
     = trace (stop cooperative (restartSpeechRecognition busy in_call))"
proof -
  let ?s = "stop cooperative (restartSpeechRecognition busy in_call)"
  have h: "\<not> isActive ?s"
    by (simp add: stop_def attempt_isActive Let_def)
  have t: "timers ?s = [Local]" and r: "speechRecognition ?s"
    by (simp_all add: stop_def attempt_def call_def restartSpeechRecognition_def busy_def
          cooperative_def in_call_fields Let_def)
  from inactive_never_starts [of ?s cooperative "''network''" Local] h
  have "retry cooperative ?s Local = ?s\<lparr>timers := remove1 Local (timers ?s)\<rparr>"
    and "speechRecognition_onerror cooperative ?s ''network'' = ?s"
    by blast+
  then have "trace (retry cooperative ?s Local) = trace ?s"
    and "trace (speechRecognition_onerror cooperative ?s ''network'') = trace ?s"
    by simp_all
  with h t r show ?thesis by (intro conjI)
qed

end
